theory Spec2Isabelle
  imports Main "HOL-Library.Word"
begin

section \<open>The funding round factory (contracts/FundingRoundFactory.sol)\<close>

text \<open>
  A shallow embedding of the Solidity contract \<^verbatim>\<open>FundingRoundFactory\<close>. The contract's
  storage is a record, every public function is a HOL function from the call's
  environment and the storage to either a revert reason or the new storage, and the
  emitted events are appended to a log kept beside the storage. Calls to
  \<^verbatim>\<open>console.log\<close> write nothing to storage and are left out.
\<close>

subsection \<open>Data\<close>

type_synonym address = "160 word"
type_synonym uint256 = "256 word"

text \<open>
  The events the contract declares. \<^verbatim>\<open>RoundFinalized\<close> is declared twice, without and
  with a round argument; the second one is \<open>RoundFinalizedAt\<close> here. \<^verbatim>\<open>setToken\<close>
  passes \<^verbatim>\<open>_coordinator\<close> to \<^verbatim>\<open>NewToken\<close>, a name that is not in scope there, so the
  event is kept without its argument.
\<close>

datatype event =
    NewToken
  | NewRound address
  | RoundFinalized
  | CoordinatorTransferred address
  | WitnessTransferred address
  | NewRoundDuration uint256
  | MaciSet address
  | NewMaciRequired
  | RoundFinalizedAt address
  | OwnershipTransferred address address

text \<open>
  The reasons a call reverts with. The contract gives them as strings, see \<open>reason\<close>.
\<close>

datatype error =
    NotOwner
  | NewOwnerIsZero
  | NotCoordinator
  | NotWitness
  | InvalidEndRoundConditions
  | NoCoordinator
  | InvalidTransferConditions

fun reason :: "error \<Rightarrow> string" where
  "reason NotOwner = ''Ownable: caller is not the owner''"
| "reason NewOwnerIsZero = ''Ownable: new owner is the zero address''"
| "reason NotCoordinator = ''Sender is not the coordinator''"
| "reason NotWitness = ''Sender is not the witness''"
| "reason InvalidEndRoundConditions = ''Invalid end round conditions''"
| "reason NoCoordinator = ''No coordinator''"
| "reason InvalidTransferConditions = ''Invalid conditions for transfer of matching funds''"

text \<open>
  The storage of the contract, field by field as declared, with three additions:
  \<open>owner\<close> is the one storage slot of the inherited \<^verbatim>\<open>Ownable\<close>; \<open>nonce\<close> is the
  account nonce of the contract, which every \<^verbatim>\<open>new\<close> expression increments;
  \<open>events\<close> is the log of events emitted so far. A Solidity mapping is a total function
  whose unwritten entries are zero.
\<close>

record factory =
  owner :: address
  coordinator :: address
  maci :: address
  token :: address
  witness :: address
  currentRound :: address
  previousRound :: address
  newMaci :: bool
  previousRoundValid :: bool
  newCoordinatorSet :: bool
  duration :: uint256
  roundEndBlockNumber :: uint256
  maciByRound :: "address \<Rightarrow> address"
  nonce :: nat
  events :: "event list"

text \<open>
  What a call sees of its surroundings: \<^verbatim>\<open>msg.sender\<close>, \<^verbatim>\<open>block.number\<close>, and the
  address a contract created by this one receives, as a function of the creator's
  nonce (on chain, a hash of the creator's address and nonce).
\<close>

record env =
  sender :: address
  blockNumber :: uint256
  createAddress :: "nat \<Rightarrow> address"

text \<open>Storage before the constructor runs: every slot is zero.\<close>

definition init :: factory where
  "init = \<lparr> owner = 0, coordinator = 0, maci = 0, token = 0, witness = 0,
      currentRound = 0, previousRound = 0,
      newMaci = False, previousRoundValid = False, newCoordinatorSet = False,
      duration = 0, roundEndBlockNumber = 0,
      maciByRound = (\<lambda>_. 0), nonce = 1, events = [] \<rparr>"

subsection \<open>Views\<close>

definition getCurrentRound :: "factory \<Rightarrow> address" where
  "getCurrentRound s = currentRound s"

definition getPreviousRound :: "factory \<Rightarrow> address" where
  "getPreviousRound s = previousRound s"

definition getMaci :: "factory \<Rightarrow> address \<Rightarrow> address" where
  "getMaci s round = maciByRound s round"

subsection \<open>Modifiers\<close>

definition emit :: "event \<Rightarrow> factory \<Rightarrow> factory" where
  "emit ev s = s\<lparr>events := events s @ [ev]\<rparr>"

text \<open>
  \<^verbatim>\<open>onlyOwner\<close> comes from the imported \<^verbatim>\<open>Ownable\<close>: it requires the sender to be the
  stored owner. \<^verbatim>\<open>onlyCoordinator\<close> and \<^verbatim>\<open>onlyWitness\<close> are the contract's own.
\<close>

definition onlyOwner :: "env \<Rightarrow> factory \<Rightarrow> (error + 'a) \<Rightarrow> error + 'a" where
  "onlyOwner e s body = (if sender e = owner s then body else Inl NotOwner)"

definition onlyCoordinator :: "env \<Rightarrow> factory \<Rightarrow> (error + 'a) \<Rightarrow> error + 'a" where
  "onlyCoordinator e s body = (if sender e = coordinator s then body else Inl NotCoordinator)"

definition onlyWitness :: "env \<Rightarrow> factory \<Rightarrow> (error + 'a) \<Rightarrow> error + 'a" where
  "onlyWitness e s body = (if sender e = witness s then body else Inl NotWitness)"

subsection \<open>Round transitions\<close>

text \<open>
  \<^verbatim>\<open>deployNewRound\<close>: \<^verbatim>\<open>new FundingRound(this, token)\<close> creates a contract at the address
  the environment gives for the current nonce, and increments the nonce.
\<close>

definition deployNewRound :: "env \<Rightarrow> factory \<Rightarrow> address \<times> factory" where
  "deployNewRound e s = (createAddress e (nonce s), s\<lparr>nonce := Suc (nonce s)\<rparr>)"

text \<open>
  \<^verbatim>\<open>endRound\<close>, statement by statement. The sum \<^verbatim>\<open>block.number + duration\<close> is the
  unchecked 256-bit addition of Solidity 0.6.
\<close>

definition endRound :: "env \<Rightarrow> factory \<Rightarrow> error + factory" where
  "endRound e s =
    (if blockNumber e \<ge> roundEndBlockNumber s \<or> newCoordinatorSet s = True \<or> coordinator s = 0
     then
       (case deployNewRound e s of (nextRound, s1) \<Rightarrow>
          let s2 = s1\<lparr>previousRound := currentRound s1\<rparr>;
              s3 = s2\<lparr>currentRound := nextRound\<rparr>;
              s4 = emit (NewRound (currentRound s3)) s3
          in Inr (s4\<lparr>roundEndBlockNumber := blockNumber e + duration s4\<rparr>))
     else Inl InvalidEndRoundConditions)"

subsection \<open>Attestation and finalization\<close>

definition setMACI :: "env \<Rightarrow> address \<Rightarrow> factory \<Rightarrow> error + factory" where
  "setMACI e m s = onlyWitness e s
    (let s1 = s\<lparr>maci := m\<rparr>;
         s2 = s1\<lparr>newMaci := True\<rparr>
     in Inr (emit (MaciSet m) s2))"

text \<open>
  \<^verbatim>\<open>transferMatchingFunds\<close> returns \<^verbatim>\<open>allDone\<close> together with the new storage. The
  transfers of funds are comments in the source, so no balance appears.
\<close>

definition transferMatchingFunds :: "env \<Rightarrow> factory \<Rightarrow> error + (bool \<times> factory)" where
  "transferMatchingFunds e s = onlyOwner e s
    (if \<not> coordinator s \<noteq> 0 then Inl NoCoordinator
     else if newCoordinatorSet s = True then
       (let s1 = s\<lparr>newCoordinatorSet := False\<rparr>;
            s2 = s1\<lparr>newMaci := False\<rparr>;
            s3 = s2\<lparr>previousRoundValid := False\<rparr>
        in Inr (False, emit NewMaciRequired s3))
     else if newMaci s \<and> previousRoundValid s then
       (let s1 = emit (RoundFinalizedAt (previousRound s)) s
        in Inr (True, s1\<lparr>newMaci := False\<rparr>))
     else Inl InvalidTransferConditions)"

subsection \<open>Roles and settings\<close>

definition setToken :: "env \<Rightarrow> address \<Rightarrow> factory \<Rightarrow> error + factory" where
  "setToken e t s = onlyOwner e s (Inr (emit NewToken (s\<lparr>token := t\<rparr>)))"

definition setCoordinator :: "env \<Rightarrow> address \<Rightarrow> factory \<Rightarrow> error + factory" where
  "setCoordinator e c s = onlyOwner e s
    (let s1 = s\<lparr>coordinator := c\<rparr>;
         s2 = s1\<lparr>newCoordinatorSet := True\<rparr>
     in endRound e (emit (CoordinatorTransferred c) s2))"

definition setWitness :: "env \<Rightarrow> address \<Rightarrow> factory \<Rightarrow> error + factory" where
  "setWitness e w s = onlyOwner e s (Inr (emit (WitnessTransferred w) (s\<lparr>witness := w\<rparr>)))"

definition setRoundDuration :: "env \<Rightarrow> uint256 \<Rightarrow> factory \<Rightarrow> error + factory" where
  "setRoundDuration e d s = onlyOwner e s (Inr (emit (NewRoundDuration d) (s\<lparr>duration := d\<rparr>)))"

definition coordinatorQuit :: "env \<Rightarrow> factory \<Rightarrow> error + factory" where
  "coordinatorQuit e s = onlyCoordinator e s
    (let s1 = s\<lparr>coordinator := 0\<rparr>
     in endRound e (emit (CoordinatorTransferred (coordinator s1)) s1))"

definition witnessQuit :: "env \<Rightarrow> factory \<Rightarrow> error + factory" where
  "witnessQuit e s = onlyWitness e s
    (let s1 = s\<lparr>witness := 0\<rparr>;
         s2 = emit (WitnessTransferred (witness s1)) s1
     in Inr (s2\<lparr>newMaci := False\<rparr>))"

text \<open>
  The two public functions inherited from \<^verbatim>\<open>Ownable\<close>, whose source is the imported
  OpenZeppelin library: the standard single-owner transfer, and the owner giving the
  role up.
\<close>

definition transferOwnership :: "env \<Rightarrow> address \<Rightarrow> factory \<Rightarrow> error + factory" where
  "transferOwnership e n s = onlyOwner e s
    (if n = 0 then Inl NewOwnerIsZero
     else Inr ((emit (OwnershipTransferred (owner s) n) s)\<lparr>owner := n\<rparr>))"

definition renounceOwnership :: "env \<Rightarrow> factory \<Rightarrow> error + factory" where
  "renounceOwnership e s = onlyOwner e s
    (Inr ((emit (OwnershipTransferred (owner s) 0) s)\<lparr>owner := 0\<rparr>))"

subsection \<open>Deployment\<close>

text \<open>
  The constructor of \<^verbatim>\<open>Ownable\<close> runs first and makes the deployer the owner; then the
  body: \<^verbatim>\<open>setCoordinator(_firstCoordinator); endRound();\<close>.
\<close>

definition constructor :: "env \<Rightarrow> address \<Rightarrow> error + factory" where
  "constructor e firstCoordinator =
    (let s0 = (emit (OwnershipTransferred 0 (sender e)) init)\<lparr>owner := sender e\<rparr>
     in case setCoordinator e firstCoordinator s0 of
          Inl err \<Rightarrow> Inl err
        | Inr s1 \<Rightarrow> endRound e s1)"

subsection \<open>Transactions\<close>

text \<open>
  One external call to the deployed contract. A call that reverts leaves the storage and
  the log as they were before it: \<open>exec\<close> is the storage after the transaction.
\<close>

datatype op =
    EndRound
  | SetMACI address
  | TransferMatchingFunds
  | SetToken address
  | SetCoordinator address
  | SetWitness address
  | SetRoundDuration uint256
  | CoordinatorQuit
  | WitnessQuit
  | TransferOwnership address
  | RenounceOwnership

fun step :: "env \<Rightarrow> op \<Rightarrow> factory \<Rightarrow> error + factory" where
  "step e EndRound s = endRound e s"
| "step e (SetMACI m) s = setMACI e m s"
| "step e TransferMatchingFunds s = map_sum id snd (transferMatchingFunds e s)"
| "step e (SetToken t) s = setToken e t s"
| "step e (SetCoordinator c) s = setCoordinator e c s"
| "step e (SetWitness w) s = setWitness e w s"
| "step e (SetRoundDuration d) s = setRoundDuration e d s"
| "step e CoordinatorQuit s = coordinatorQuit e s"
| "step e WitnessQuit s = witnessQuit e s"
| "step e (TransferOwnership n) s = transferOwnership e n s"
| "step e RenounceOwnership s = renounceOwnership e s"

definition exec :: "env \<Rightarrow> op \<Rightarrow> factory \<Rightarrow> factory" where
  "exec e c s = (case step e c s of Inl _ \<Rightarrow> s | Inr s' \<Rightarrow> s')"

fun run :: "(env \<times> op) list \<Rightarrow> factory \<Rightarrow> factory" where
  "run [] s = s"
| "run ((e, c) # cs) s = run cs (exec e c s)"

text \<open>The operations that call \<^verbatim>\<open>endRound\<close>.\<close>

fun endsRound :: "op \<Rightarrow> bool" where
  "endsRound EndRound = True"
| "endsRound (SetCoordinator _) = True"
| "endsRound CoordinatorQuit = True"
| "endsRound _ = False"

text \<open>The rounds announced in a log, oldest first: the arguments of its \<open>NewRound\<close> events.\<close>

fun roundsStarted :: "event list \<Rightarrow> address list" where
  "roundsStarted [] = []"
| "roundsStarted (NewRound a # evs) = a # roundsStarted evs"
| "roundsStarted (_ # evs) = roundsStarted evs"

subsection \<open>An example deployment\<close>

text \<open>
  Concrete inputs for evaluating the model: an address function for created contracts,
  the deployer and owner (address 1) and the witness (address 5) calling at block 10,
  and the storage after address 1 deploys the factory with first coordinator 7.
\<close>

definition demoCreate :: "nat \<Rightarrow> address" where
  "demoCreate n = 4096 + of_nat n"

definition aliceEnv :: env where
  "aliceEnv = \<lparr> sender = 1, blockNumber = 10, createAddress = demoCreate \<rparr>"

definition walterEnv :: env where
  "walterEnv = \<lparr> sender = 5, blockNumber = 10, createAddress = demoCreate \<rparr>"

definition deployed :: factory where
  "deployed = (case constructor aliceEnv 7 of Inl _ \<Rightarrow> init | Inr s \<Rightarrow> s)"

section \<open>Properties\<close>

lemmas factory_defs =
  onlyOwner_def onlyCoordinator_def onlyWitness_def emit_def deployNewRound_def endRound_def
  setMACI_def transferMatchingFunds_def setToken_def setCoordinator_def setWitness_def
  setRoundDuration_def coordinatorQuit_def witnessQuit_def transferOwnership_def
  renounceOwnership_def

lemmas demo_defs = demoCreate_def aliceEnv_def walterEnv_def deployed_def constructor_def init_def

lemma deployed_fields:
  "owner deployed = 1" "coordinator deployed = 7" "previousRound deployed = 4097"
  "currentRound deployed = 4098" "newCoordinatorSet deployed" "\<not> newMaci deployed"
  "\<not> previousRoundValid deployed" "nonce deployed = 3" "witness deployed = 0"
  "roundEndBlockNumber deployed = 10" "duration deployed = 0"
  by (simp_all add: demo_defs factory_defs Let_def)

subsection \<open>The three branches of \<^verbatim>\<open>transferMatchingFunds\<close>\<close>

text \<open>
  C1. Called by the owner in a state whose coordinator is not the zero address and whose
  \<open>newCoordinatorSet\<close> is true, \<open>transferMatchingFunds\<close> takes the redo branch whatever
  \<open>newMaci\<close> and \<open>previousRoundValid\<close> are: it returns \<open>False\<close>, the three flags are
  false afterwards, \<open>NewMaciRequired\<close> is the one event emitted, and nothing else in
  storage changes (no funds are held or moved by the contract).
\<close>

theorem transferMatchingFunds_redo:
  assumes "sender e = owner s" and "coordinator s \<noteq> 0" and "newCoordinatorSet s"
  shows "transferMatchingFunds e s =
    Inr (False, s\<lparr>newCoordinatorSet := False, newMaci := False, previousRoundValid := False,
                   events := events s @ [NewMaciRequired]\<rparr>)"
  using assms by (simp add: transferMatchingFunds_def onlyOwner_def emit_def)

theorem transferMatchingFunds_redo_witness:
  "sender aliceEnv = owner deployed \<and> coordinator deployed \<noteq> 0 \<and> newCoordinatorSet deployed \<and>
   transferMatchingFunds aliceEnv deployed =
    Inr (False, deployed\<lparr>newCoordinatorSet := False, newMaci := False,
                   previousRoundValid := False,
                   events := events deployed @ [NewMaciRequired]\<rparr>)"
  using transferMatchingFunds_redo [of aliceEnv deployed]
  by (simp add: deployed_fields aliceEnv_def)

text \<open>
  C2. Called by the owner in a state whose coordinator is not the zero address, whose
  \<open>newCoordinatorSet\<close> is false and whose \<open>newMaci\<close> and \<open>previousRoundValid\<close> are both
  true, \<open>transferMatchingFunds\<close> takes the finalize branch: it returns \<open>True\<close>, emits
  \<open>RoundFinalized\<close> with the previous round's address, sets \<open>newMaci\<close> to false and
  leaves \<open>previousRoundValid\<close>, \<open>newCoordinatorSet\<close> and the rest of storage as they were.
\<close>

theorem transferMatchingFunds_finalize:
  assumes "sender e = owner s" and "coordinator s \<noteq> 0" and "\<not> newCoordinatorSet s"
    and "newMaci s" and "previousRoundValid s"
  shows "transferMatchingFunds e s =
    Inr (True, s\<lparr>newMaci := False,
                  events := events s @ [RoundFinalizedAt (previousRound s)]\<rparr>)"
  using assms by (simp add: transferMatchingFunds_def onlyOwner_def emit_def)

theorem transferMatchingFunds_finalize_witness:
  "transferMatchingFunds aliceEnv
     (deployed\<lparr>newMaci := True, previousRoundValid := True, newCoordinatorSet := False\<rparr>) =
    Inr (True, deployed\<lparr>newMaci := False, previousRoundValid := True, newCoordinatorSet := False,
                  events := events deployed @ [RoundFinalizedAt 4097]\<rparr>)"
  using transferMatchingFunds_finalize
    [of aliceEnv "deployed\<lparr>newMaci := True, previousRoundValid := True, newCoordinatorSet := False\<rparr>"]
  by (simp add: deployed_fields aliceEnv_def)

text \<open>
  C3. For a call by the owner, \<open>transferMatchingFunds\<close> reverts with \<open>NoCoordinator\<close>
  exactly when the coordinator is the zero address, and with
  \<open>InvalidTransferConditions\<close> exactly when the coordinator is not the zero address,
  \<open>newCoordinatorSet\<close> is false and \<open>newMaci\<close> and \<open>previousRoundValid\<close> are not both
  true. Whoever calls, a call that reverts leaves the whole storage, the three flags
  included, as it was.
\<close>

theorem transferMatchingFunds_failures:
  "(sender e = owner s \<longrightarrow>
      (transferMatchingFunds e s = Inl NoCoordinator \<longleftrightarrow> coordinator s = 0) \<and>
      (transferMatchingFunds e s = Inl InvalidTransferConditions \<longleftrightarrow>
         coordinator s \<noteq> 0 \<and> \<not> newCoordinatorSet s \<and> \<not> (newMaci s \<and> previousRoundValid s))) \<and>
   (\<forall>err. transferMatchingFunds e s = Inl err \<longrightarrow> exec e TransferMatchingFunds s = s)"
  by (auto simp add: transferMatchingFunds_def onlyOwner_def emit_def exec_def Let_def)

theorem transferMatchingFunds_failures_witness:
  "sender aliceEnv = owner (deployed\<lparr>coordinator := 0\<rparr>) \<and>
   transferMatchingFunds aliceEnv (deployed\<lparr>coordinator := 0\<rparr>) = Inl NoCoordinator \<and>
   transferMatchingFunds aliceEnv (deployed\<lparr>newCoordinatorSet := False\<rparr>) =
     Inl InvalidTransferConditions \<and>
   exec aliceEnv TransferMatchingFunds (deployed\<lparr>newCoordinatorSet := False\<rparr>) =
     deployed\<lparr>newCoordinatorSet := False\<rparr>"
  using transferMatchingFunds_failures [of aliceEnv "deployed\<lparr>coordinator := 0\<rparr>"]
    transferMatchingFunds_failures [of aliceEnv "deployed\<lparr>newCoordinatorSet := False\<rparr>"]
  by (simp add: deployed_fields aliceEnv_def)

text \<open>
  No operation sets \<open>previousRoundValid\<close>: a run keeps it false once it is false, and it
  is false after the constructor. So in a state reached from a deployment the finalize
  branch is never taken.
\<close>

lemma step_previousRoundValid:
  "step e c s = Inr s' \<Longrightarrow> previousRoundValid s' \<Longrightarrow> previousRoundValid s"
  by (cases c) (auto simp add: factory_defs Let_def split: if_splits)

lemma run_previousRoundValid:
  "previousRoundValid (run cs s) \<Longrightarrow> previousRoundValid s"
proof (induction cs arbitrary: s)
  case Nil
  then show ?case by simp
next
  case (Cons a cs)
  obtain e c where a: "a = (e, c)" by (cases a)
  from Cons.prems have "previousRoundValid (run cs (exec e c s))" by (simp add: a)
  then have "previousRoundValid (exec e c s)" by (rule Cons.IH)
  then show ?case
    by (cases "step e c s") (auto simp add: exec_def dest: step_previousRoundValid)
qed

lemma finalize_unreachable:
  assumes "constructor e0 c0 = Inr s0"
  shows "transferMatchingFunds e (run cs s0) \<noteq> Inr (True, s')"
proof -
  from assms have "\<not> previousRoundValid s0"
    by (auto simp add: constructor_def factory_defs Let_def init_def)
  then have "\<not> previousRoundValid (run cs s0)"
    using run_previousRoundValid by blast
  then show ?thesis
    by (auto simp add: transferMatchingFunds_def onlyOwner_def emit_def Let_def split: if_splits)
qed

subsection \<open>Ending a round\<close>

text \<open>
  C4. In every state \<open>endRound\<close> reverts, and then with \<open>InvalidEndRoundConditions\<close>,
  if and only if the block number is below \<open>roundEndBlockNumber\<close>, \<open>newCoordinatorSet\<close>
  is false and the coordinator is not the zero address. In every other state it succeeds:
  it deploys a round, moves \<open>currentRound\<close> to \<open>previousRound\<close>, makes the new round
  \<open>currentRound\<close>, emits \<open>NewRound\<close> with its address, and stores the 256-bit sum of
  the block number and \<open>duration\<close> as \<open>roundEndBlockNumber\<close>.
\<close>

theorem endRound_fails_iff:
  "(endRound e s = Inl InvalidEndRoundConditions \<longleftrightarrow>
      blockNumber e < roundEndBlockNumber s \<and> \<not> newCoordinatorSet s \<and> coordinator s \<noteq> 0) \<and>
   ((\<exists>err. endRound e s = Inl err) \<longleftrightarrow>
      blockNumber e < roundEndBlockNumber s \<and> \<not> newCoordinatorSet s \<and> coordinator s \<noteq> 0) \<and>
   (\<not> (blockNumber e < roundEndBlockNumber s \<and> \<not> newCoordinatorSet s \<and> coordinator s \<noteq> 0) \<longrightarrow>
      endRound e s =
        Inr (s\<lparr>nonce := Suc (nonce s),
               previousRound := currentRound s,
               currentRound := createAddress e (nonce s),
               events := events s @ [NewRound (createAddress e (nonce s))],
               roundEndBlockNumber := blockNumber e + duration s\<rparr>))"
  by (auto simp add: endRound_def deployNewRound_def emit_def Let_def not_le)

theorem endRound_fails_iff_witness:
  "\<not> (blockNumber aliceEnv < roundEndBlockNumber deployed \<and> \<not> newCoordinatorSet deployed \<and>
       coordinator deployed \<noteq> 0) \<and>
   endRound aliceEnv deployed =
     Inr (deployed\<lparr>nonce := 4, previousRound := 4098, currentRound := 4099,
            events := events deployed @ [NewRound 4099], roundEndBlockNumber := 10\<rparr>) \<and>
   endRound (aliceEnv\<lparr>blockNumber := 50\<rparr>)
     (deployed\<lparr>newCoordinatorSet := False, duration := 100, roundEndBlockNumber := 110\<rparr>) =
     Inl InvalidEndRoundConditions"
  using endRound_fails_iff [of aliceEnv deployed]
    endRound_fails_iff [of "aliceEnv\<lparr>blockNumber := 50\<rparr>"
      "deployed\<lparr>newCoordinatorSet := False, duration := 100, roundEndBlockNumber := 110\<rparr>"]
  by (simp add: deployed_fields aliceEnv_def demoCreate_def)

subsection \<open>The round handles\<close>

text \<open>
  What one successful call does to the two round handles: an operation that runs
  \<open>endRound\<close> shifts them, every other operation leaves them alone.
\<close>

lemma step_rounds:
  assumes "step e c s = Inr s'"
  shows "if endsRound c
         then previousRound s' = currentRound s \<and> currentRound s' = createAddress e (nonce s)
         else previousRound s' = previousRound s \<and> currentRound s' = currentRound s"
  using assms
  by (cases c) (auto simp add: factory_defs Let_def split: if_splits)

text \<open>
  C5. After any sequence \<open>cs\<close> of calls, from any storage, a successful call that ends
  the round (\<open>endRound\<close> itself, \<open>setCoordinator\<close> or \<open>coordinatorQuit\<close>) leaves in
  \<open>previousRound\<close> the value \<open>currentRound\<close> had just before the call, and in
  \<open>currentRound\<close> the address of the round that call deployed; a successful call of any
  other operation changes neither handle. The constructor is the remaining entry point:
  it makes two transitions, through \<open>setCoordinator\<close> and then \<open>endRound\<close>, and each of
  them shifts the handles the same way.
\<close>

theorem round_transition_shifts_handles:
  "(step e c (run cs s0) = Inr s' \<longrightarrow>
      (if endsRound c
       then previousRound s' = currentRound (run cs s0) \<and>
            currentRound s' = createAddress e (nonce (run cs s0))
       else previousRound s' = previousRound (run cs s0) \<and>
            currentRound s' = currentRound (run cs s0))) \<and>
   (constructor e c0 = Inr s \<longrightarrow>
      (\<exists>s1. setCoordinator e c0
               ((emit (OwnershipTransferred 0 (sender e)) init)\<lparr>owner := sender e\<rparr>) = Inr s1 \<and>
            previousRound s1 = currentRound init \<and>
            currentRound s1 = createAddress e (nonce init) \<and>
            endRound e s1 = Inr s \<and>
            previousRound s = currentRound s1 \<and>
            currentRound s = createAddress e (nonce s1)))"
  using step_rounds [of e c "run cs s0" s']
  by (auto simp add: constructor_def factory_defs Let_def init_def split: if_splits sum.splits)

theorem round_transition_shifts_handles_witness:
  "step aliceEnv (SetCoordinator 8)
     (run [(aliceEnv, SetWitness 5), (walterEnv, SetMACI 9)] deployed) =
     Inr (exec aliceEnv (SetCoordinator 8)
       (run [(aliceEnv, SetWitness 5), (walterEnv, SetMACI 9)] deployed)) \<and>
   currentRound (run [(aliceEnv, SetWitness 5), (walterEnv, SetMACI 9)] deployed) = 4098 \<and>
   previousRound (exec aliceEnv (SetCoordinator 8)
       (run [(aliceEnv, SetWitness 5), (walterEnv, SetMACI 9)] deployed)) = 4098 \<and>
   currentRound (exec aliceEnv (SetCoordinator 8)
       (run [(aliceEnv, SetWitness 5), (walterEnv, SetMACI 9)] deployed)) = 4099 \<and>
   constructor aliceEnv 7 = Inr deployed \<and>
   previousRound deployed = 4097 \<and> currentRound deployed = 4098"
  using round_transition_shifts_handles [of aliceEnv "SetCoordinator 8"
      "[(aliceEnv, SetWitness 5), (walterEnv, SetMACI 9)]" deployed
      "exec aliceEnv (SetCoordinator 8)
         (run [(aliceEnv, SetWitness 5), (walterEnv, SetMACI 9)] deployed)" 7 deployed]
  by (simp add: exec_def demo_defs factory_defs Let_def)

text \<open>
  Over whole runs: in every state reached from a deployment by any sequence of calls,
  the rounds announced in the log end with the previous round followed by the current
  round, so the two handles are always the last two rounds deployed, in order.
\<close>

lemma roundsStarted_append:
  "roundsStarted (xs @ ys) = roundsStarted xs @ roundsStarted ys"
  by (induction xs rule: roundsStarted.induct) simp_all

lemma step_log:
  assumes "step e c s = Inr s'"
  shows "roundsStarted (events s') =
         roundsStarted (events s) @ (if endsRound c then [currentRound s'] else [])"
  using assms
  by (cases c) (auto simp add: factory_defs Let_def roundsStarted_append split: if_splits)

lemma exec_last_two:
  assumes "roundsStarted (events s) = rs @ [previousRound s, currentRound s]"
  shows "\<exists>rs'. roundsStarted (events (exec e c s)) =
           rs' @ [previousRound (exec e c s), currentRound (exec e c s)]"
proof (cases "step e c s")
  case (Inl err)
  then show ?thesis using assms by (simp add: exec_def)
next
  case (Inr s')
  show ?thesis
  proof (cases "endsRound c")
    case True
    with step_rounds [OF Inr] step_log [OF Inr] assms
    have "roundsStarted (events s') = (rs @ [previousRound s]) @ [previousRound s', currentRound s']"
      by simp
    then show ?thesis using Inr by (auto simp add: exec_def simp del: append_assoc)
  next
    case False
    with step_rounds [OF Inr] step_log [OF Inr] assms
    have "roundsStarted (events s') = rs @ [previousRound s', currentRound s']"
      by simp
    then show ?thesis using Inr by (auto simp add: exec_def)
  qed
qed

lemma run_last_two:
  assumes "\<exists>rs. roundsStarted (events s) = rs @ [previousRound s, currentRound s]"
  shows "\<exists>rs. roundsStarted (events (run cs s)) =
           rs @ [previousRound (run cs s), currentRound (run cs s)]"
  using assms
proof (induction cs arbitrary: s)
  case Nil
  then show ?case by simp
next
  case (Cons a cs)
  obtain e c where a: "a = (e, c)" by (cases a)
  from Cons.prems obtain rs where "roundsStarted (events s) = rs @ [previousRound s, currentRound s]"
    by blast
  from exec_last_two [OF this] have
    "\<exists>rs'. roundsStarted (events (exec e c s)) =
       rs' @ [previousRound (exec e c s), currentRound (exec e c s)]" .
  from Cons.IH [OF this] show ?case by (simp add: a)
qed

lemma rounds_after_deployment:
  assumes "constructor e0 c0 = Inr s0"
  shows "\<exists>rs. roundsStarted (events (run cs s0)) =
           rs @ [previousRound (run cs s0), currentRound (run cs s0)]"
proof (rule run_last_two)
  from assms have "roundsStarted (events s0) = [] @ [previousRound s0, currentRound s0]"
    by (auto simp add: constructor_def factory_defs Let_def init_def)
  then show "\<exists>rs. roundsStarted (events s0) = rs @ [previousRound s0, currentRound s0]"
    by blast
qed

subsection \<open>Deployment\<close>

text \<open>
  C6, as the code has it. The constructor never reverts and makes two round transitions,
  one inside \<open>setCoordinator\<close> and one by its own call of \<open>endRound\<close>: afterwards
  \<open>currentRound\<close> is the second round deployed and \<open>previousRound\<close> is the first round
  deployed, not the zero handle the storage started with. Both deployed rounds are in the
  event log, the coordinator is the given one, \<open>newCoordinatorSet\<close> is true, and the
  deadline is the block number of the deployment (the duration is still zero).
\<close>

theorem constructor_deploys_two_rounds:
  "constructor e c =
     Inr (init\<lparr>owner := sender e, coordinator := c, newCoordinatorSet := True,
              previousRound := createAddress e (nonce init),
              currentRound := createAddress e (Suc (nonce init)),
              nonce := Suc (Suc (nonce init)),
              roundEndBlockNumber := blockNumber e,
              events := [OwnershipTransferred 0 (sender e), CoordinatorTransferred c,
                         NewRound (createAddress e (nonce init)),
                         NewRound (createAddress e (Suc (nonce init)))]\<rparr>)"
  by (simp add: constructor_def factory_defs Let_def init_def)

text \<open>
  The claim as written, that \<open>previousRound\<close> is the zero handle after the constructor,
  fails for the example deployment: the first round deployed, at address 4097, is the
  previous round.
\<close>

theorem constructor_previous_round_counterexample:
  "constructor aliceEnv 7 = Inr deployed \<and> currentRound deployed = 4098 \<and>
   previousRound deployed = 4097 \<and> previousRound deployed \<noteq> 0"
  by (simp add: demo_defs factory_defs Let_def)

subsection \<open>Attestation\<close>

text \<open>No operation writes the mapping that \<open>getMaci\<close> reads.\<close>

lemma step_keeps_mapping:
  "step e c s = Inr s' \<Longrightarrow> maciByRound s' = maciByRound s"
  by (cases c) (auto simp add: factory_defs Let_def split: if_splits)

text \<open>
  C7, evaluated on the code. In the example deployment the owner names address 5 the
  witness, and the witness calls \<open>setMACI\<close> with identifier 9. The call succeeds, stores
  9 in \<open>maci\<close> and sets \<open>newMaci\<close>, but \<open>getMaci\<close> of the current round still returns
  zero: \<open>setMACI\<close> does not write \<open>maciByRound\<close>.
\<close>

theorem setMACI_does_not_record:
  "constructor aliceEnv 7 = Inr deployed \<and>
   step walterEnv (SetMACI 9) (run [(aliceEnv, SetWitness 5)] deployed) =
     Inr (run [(aliceEnv, SetWitness 5), (walterEnv, SetMACI 9)] deployed) \<and>
   maci (run [(aliceEnv, SetWitness 5), (walterEnv, SetMACI 9)] deployed) = 9 \<and>
   newMaci (run [(aliceEnv, SetWitness 5), (walterEnv, SetMACI 9)] deployed) \<and>
   currentRound (run [(aliceEnv, SetWitness 5), (walterEnv, SetMACI 9)] deployed) = 4098 \<and>
   getMaci (run [(aliceEnv, SetWitness 5), (walterEnv, SetMACI 9)] deployed) 4098 = 0"
  by (simp add: exec_def demo_defs factory_defs getMaci_def Let_def)

subsection \<open>The deadline\<close>

lemma max_uint256: "unat (- 1 :: uint256) = 2 ^ 256 - 1"
  by (simp add: unsigned_minus_1_eq_mask mask_eq_exp_minus_1)

text \<open>The deadline a successful \<open>endRound\<close> stores is the exact sum modulo \<open>2 ^ 256\<close>.\<close>

lemma endRound_deadline_mod:
  assumes "endRound e s = Inr s'"
  shows "unat (roundEndBlockNumber s') = (unat (blockNumber e) + unat (duration s)) mod 2 ^ 256"
proof -
  have "roundEndBlockNumber s' = blockNumber e + duration s"
    using assms by (auto simp add: factory_defs Let_def split: if_splits)
  then show ?thesis
    by (simp add: unat_word_ariths(1))
qed

text \<open>
  C8, evaluated on the code. In the example deployment the owner sets the duration to the
  largest 256-bit value (\<open>- 1\<close> as a word) and \<open>endRound\<close> is called at block 10. The
  call succeeds and stores the deadline 9, the sum wrapped around: it does not revert and
  does not saturate.
\<close>

theorem endRound_deadline_wraps:
  "constructor aliceEnv 7 = Inr deployed \<and>
   step aliceEnv EndRound (run [(aliceEnv, SetRoundDuration (- 1))] deployed) =
     Inr (run [(aliceEnv, SetRoundDuration (- 1)), (aliceEnv, EndRound)] deployed) \<and>
   blockNumber aliceEnv = 10 \<and>
   duration (run [(aliceEnv, SetRoundDuration (- 1))] deployed) = - 1 \<and>
   roundEndBlockNumber (run [(aliceEnv, SetRoundDuration (- 1)), (aliceEnv, EndRound)] deployed) = 9"
  by (simp add: exec_def demo_defs factory_defs Let_def)

subsection \<open>The witness leaving or being replaced\<close>

text \<open>
  C9, as the code has it. Let the witness call \<open>witnessQuit\<close> and the owner call
  \<open>transferMatchingFunds\<close> right after it. Whatever \<open>previousRoundValid\<close> is, the
  second call never takes the finalize branch. It takes the reject branch, reverting with
  \<open>InvalidTransferConditions\<close>, when the coordinator is not the zero address and
  \<open>newCoordinatorSet\<close> is false; when \<open>newCoordinatorSet\<close> is true it takes the redo
  branch and returns \<open>False\<close>; when the coordinator is the zero address it reverts with
  \<open>NoCoordinator\<close>.
\<close>

theorem witnessQuit_then_transfer:
  assumes "witnessQuit e1 s = Inr s1" and "sender e2 = owner s"
  shows "(coordinator s \<noteq> 0 \<and> \<not> newCoordinatorSet s \<longrightarrow>
            transferMatchingFunds e2 s1 = Inl InvalidTransferConditions) \<and>
         (coordinator s \<noteq> 0 \<and> newCoordinatorSet s \<longrightarrow>
            (\<exists>s2. transferMatchingFunds e2 s1 = Inr (False, s2))) \<and>
         (coordinator s = 0 \<longrightarrow> transferMatchingFunds e2 s1 = Inl NoCoordinator) \<and>
         (\<forall>s2. transferMatchingFunds e2 s1 \<noteq> Inr (True, s2))"
proof -
  from assms(1) have s1: "s1 = s\<lparr>witness := 0, newMaci := False,
      events := events s @ [WitnessTransferred 0]\<rparr>"
    by (auto simp add: witnessQuit_def onlyWitness_def emit_def Let_def split: if_splits)
  show ?thesis
    unfolding s1 using assms(2)
    by (simp add: transferMatchingFunds_def onlyOwner_def emit_def)
qed

theorem witnessQuit_then_transfer_witness:
  "witnessQuit walterEnv
     (deployed\<lparr>witness := 5, newMaci := True, previousRoundValid := True,
        newCoordinatorSet := False\<rparr>) =
     Inr (deployed\<lparr>witness := 0, newMaci := False, previousRoundValid := True,
        newCoordinatorSet := False, events := events deployed @ [WitnessTransferred 0]\<rparr>) \<and>
   sender aliceEnv = owner (deployed\<lparr>witness := 5, newMaci := True, previousRoundValid := True,
        newCoordinatorSet := False\<rparr>) \<and>
   transferMatchingFunds aliceEnv
     (deployed\<lparr>witness := 0, newMaci := False, previousRoundValid := True,
        newCoordinatorSet := False, events := events deployed @ [WitnessTransferred 0]\<rparr>) =
     Inl InvalidTransferConditions"
  using witnessQuit_then_transfer [of walterEnv
      "deployed\<lparr>witness := 5, newMaci := True, previousRoundValid := True,
         newCoordinatorSet := False\<rparr>"
      "deployed\<lparr>witness := 0, newMaci := False, previousRoundValid := True,
         newCoordinatorSet := False, events := events deployed @ [WitnessTransferred 0]\<rparr>"
      aliceEnv]
  by (simp add: deployed_fields aliceEnv_def walterEnv_def witnessQuit_def onlyWitness_def
      emit_def Let_def)

text \<open>
  The claim as written, for every state, fails where \<open>newCoordinatorSet\<close> is true, as it
  is right after deployment: with \<open>previousRoundValid\<close> true, the call after
  \<open>witnessQuit\<close> takes the redo branch and returns \<open>False\<close> instead of reverting.
\<close>

theorem witnessQuit_then_transfer_counterexample:
  "previousRoundValid (deployed\<lparr>witness := 5, newMaci := True, previousRoundValid := True\<rparr>) \<and>
   witnessQuit walterEnv (deployed\<lparr>witness := 5, newMaci := True, previousRoundValid := True\<rparr>) =
     Inr (deployed\<lparr>witness := 0, newMaci := False, previousRoundValid := True,
            events := events deployed @ [WitnessTransferred 0]\<rparr>) \<and>
   transferMatchingFunds aliceEnv
     (deployed\<lparr>witness := 0, newMaci := False, previousRoundValid := True,
            events := events deployed @ [WitnessTransferred 0]\<rparr>) =
     Inr (False, deployed\<lparr>witness := 0, newMaci := False, previousRoundValid := False,
            newCoordinatorSet := False,
            events := events deployed @ [WitnessTransferred 0, NewMaciRequired]\<rparr>) \<and>
   transferMatchingFunds aliceEnv
     (deployed\<lparr>witness := 0, newMaci := False, previousRoundValid := True,
            events := events deployed @ [WitnessTransferred 0]\<rparr>) \<noteq> Inl InvalidTransferConditions"
  by (simp add: demo_defs factory_defs Let_def)

text \<open>
  C10. Called by the owner, \<open>setWitness\<close> succeeds, and afterwards the storage differs
  from the one before in the witness only (the event \<open>WitnessTransferred\<close> is added to
  the log): \<open>newMaci\<close>, \<open>newCoordinatorSet\<close>, \<open>previousRoundValid\<close>, both round
  handles, the duration and the deadline are as before. So an attestation pending before
  the replacement still lets the owner finalize after it, whereas \<open>witnessQuit\<close> by the
  witness clears \<open>newMaci\<close>.
\<close>

theorem setWitness_frame:
  assumes "sender e = owner s"
  shows "setWitness e w s = Inr (s\<lparr>witness := w, events := events s @ [WitnessTransferred w]\<rparr>) \<and>
         (sender e' = owner s \<and> coordinator s \<noteq> 0 \<and> \<not> newCoordinatorSet s \<and> newMaci s \<and>
          previousRoundValid s \<longrightarrow>
            transferMatchingFunds e'
              (s\<lparr>witness := w, events := events s @ [WitnessTransferred w]\<rparr>) =
            Inr (True, s\<lparr>witness := w, newMaci := False,
                   events := events s @ [WitnessTransferred w, RoundFinalizedAt (previousRound s)]\<rparr>)) \<and>
         (sender e' = witness s \<longrightarrow>
            witnessQuit e' s =
            Inr (s\<lparr>witness := 0, newMaci := False, events := events s @ [WitnessTransferred 0]\<rparr>))"
  using assms
  by (simp add: setWitness_def witnessQuit_def transferMatchingFunds_def onlyOwner_def
      onlyWitness_def emit_def Let_def)

theorem setWitness_frame_witness:
  "sender aliceEnv = owner (deployed\<lparr>witness := 5, newMaci := True, previousRoundValid := True,
        newCoordinatorSet := False\<rparr>) \<and>
   setWitness aliceEnv 6
     (deployed\<lparr>witness := 5, newMaci := True, previousRoundValid := True,
        newCoordinatorSet := False\<rparr>) =
     Inr (deployed\<lparr>witness := 6, newMaci := True, previousRoundValid := True,
        newCoordinatorSet := False, events := events deployed @ [WitnessTransferred 6]\<rparr>) \<and>
   transferMatchingFunds aliceEnv
     (deployed\<lparr>witness := 6, newMaci := True, previousRoundValid := True,
        newCoordinatorSet := False, events := events deployed @ [WitnessTransferred 6]\<rparr>) =
     Inr (True, deployed\<lparr>witness := 6, newMaci := False, previousRoundValid := True,
        newCoordinatorSet := False,
        events := events deployed @ [WitnessTransferred 6, RoundFinalizedAt 4097]\<rparr>) \<and>
   witnessQuit walterEnv
     (deployed\<lparr>witness := 5, newMaci := True, previousRoundValid := True,
        newCoordinatorSet := False\<rparr>) =
     Inr (deployed\<lparr>witness := 0, newMaci := False, previousRoundValid := True,
        newCoordinatorSet := False, events := events deployed @ [WitnessTransferred 0]\<rparr>)"
  using setWitness_frame [of aliceEnv
      "deployed\<lparr>witness := 5, newMaci := True, previousRoundValid := True,
         newCoordinatorSet := False\<rparr>" 6 aliceEnv]
    setWitness_frame [of aliceEnv
      "deployed\<lparr>witness := 5, newMaci := True, previousRoundValid := True,
         newCoordinatorSet := False\<rparr>" 6 walterEnv]
  by (simp add: deployed_fields aliceEnv_def walterEnv_def factory_defs Let_def)

end
